theory Spec2Isabelle
  imports Complex_Main "HOL-Library.Word"
begin

section \<open>The weather dashboard of \<^verbatim>\<open>src/App.tsx\<close>\<close>

text \<open>
  The component keeps seven state variables, fills two of them from a mock generator
  that reads \<^verbatim>\<open>Math.random()\<close> and \<^verbatim>\<open>Date.now()\<close>, and renders them through
  \<^verbatim>\<open>getWeatherIcon\<close> and \<^verbatim>\<open>displayTemp\<close>. The embedding below follows the source
  function by function. JavaScript numbers are binary64 values: every product, quotient
  and sum of the source is rounded as IEEE 754 prescribes. Strings are lists of UTF-16
  code units.
\<close>

subsection \<open>Strings\<close>

type_synonym jsstring = "16 word list"

text \<open>An ASCII literal of the source, as its code units.\<close>

definition lit :: "string \<Rightarrow> jsstring" where
  "lit s = map of_char s"

text \<open>
  \<^verbatim>\<open>String.prototype.trim\<close> strips the code points of the ECMAScript productions
  WhiteSpace and LineTerminator from both ends. All of them lie in the basic plane, so
  each is one code unit.
\<close>

definition WhiteSpace :: "16 word \<Rightarrow> bool" where
  "WhiteSpace c \<longleftrightarrow>
     c = 0x0009 \<or> c = 0x000A \<or> c = 0x000B \<or> c = 0x000C \<or> c = 0x000D \<or> c = 0x0020 \<or>
     c = 0x00A0 \<or> c = 0x1680 \<or> (0x2000 \<le> c \<and> c \<le> 0x200A) \<or> c = 0x2028 \<or>
     c = 0x2029 \<or> c = 0x202F \<or> c = 0x205F \<or> c = 0x3000 \<or> c = 0xFEFF"

definition trim :: "jsstring \<Rightarrow> jsstring" where
  "trim s = rev (dropWhile WhiteSpace (rev (dropWhile WhiteSpace s)))"

subsection \<open>Numbers\<close>

text \<open>
  A finite number is a real \<open>m * 2 powi e\<close> with \<open>\<bar>m\<bar> < 2 ^ 53\<close> and
  \<open>- 1074 \<le> e\<close>. The result of an arithmetic operation is the exact result
  rounded to the nearest such value, a tie going to the even significand. \<open>expo x\<close> is
  the binary exponent of a positive \<open>x\<close>, found by halving or doubling, and kept
  between \<open>- 1022\<close>, below which the spacing of the values no longer shrinks, and
  \<open>1024\<close>, from where on the result overflows.
\<close>

fun up :: "nat \<Rightarrow> real \<Rightarrow> nat" where
  "up 0 x = 0"
| "up (Suc k) x = (if 2 \<le> x then Suc (up k (x / 2)) else 0)"

fun down :: "nat \<Rightarrow> real \<Rightarrow> nat" where
  "down 0 x = 0"
| "down (Suc k) x = (if x < 1 then Suc (down k (2 * x)) else 0)"

definition expo :: "real \<Rightarrow> int" where
  "expo x = (if 1 \<le> x then int (up 1024 x) else - int (down 1022 x))"

text \<open>Rounding to the nearest integer, a tie to the even one.\<close>

definition rne :: "real \<Rightarrow> int" where
  "rne r = (let f = \<lfloor>r\<rfloor> in
             if r - of_int f < 1 / 2 then f
             else if 1 / 2 < r - of_int f then f + 1
             else if even f then f else f + 1)"

text \<open>Rounding to binary64, before the check for overflow.\<close>

definition fl :: "real \<Rightarrow> real" where
  "fl x = of_int (rne (x / 2 powi (expo \<bar>x\<bar> - 52))) * 2 powi (expo \<bar>x\<bar> - 52)"

text \<open>
  The values of the type \<^verbatim>\<open>number\<close>. The two zeros are not told apart: they are
  equal under \<^verbatim>\<open>===\<close> and print alike.
\<close>

datatype number = Finite real | PosInfinity | NegInfinity | NaN

definition round64 :: "real \<Rightarrow> number" where
  "round64 x =
     (if 2 ^ 1024 \<le> \<bar>fl x\<bar> then (if 0 < x then PosInfinity else NegInfinity)
      else Finite (fl x))"

text \<open>
  \<open>x * k\<close>, \<open>x / k\<close> and \<open>x + k\<close> for a finite constant \<open>k > 0\<close>, given as the exact
  operation \<open>f\<close>: an infinity or NaN stays what it is.
\<close>

fun arith :: "(real \<Rightarrow> real) \<Rightarrow> number \<Rightarrow> number" where
  "arith f (Finite x) = round64 (f x)"
| "arith f PosInfinity = PosInfinity"
| "arith f NegInfinity = NegInfinity"
| "arith f NaN = NaN"

text \<open>
  \<^verbatim>\<open>Math.round\<close> gives the nearest integer, a tie going towards \<open>+\<infinity>\<close>; it is exact.
\<close>

fun Math_round :: "number \<Rightarrow> number" where
  "Math_round (Finite x) = Finite (of_int \<lfloor>x + 1 / 2\<rfloor>)"
| "Math_round PosInfinity = PosInfinity"
| "Math_round NegInfinity = NegInfinity"
| "Math_round NaN = NaN"

subsection \<open>Random draws and the clock\<close>

text \<open>
  \<^verbatim>\<open>Math.random()\<close> returns a number that is at least 0 and strictly less than 1. A
  fetch receives the sequence \<open>rnd\<close> of the values its successive calls return, and
  the sequence \<open>clk\<close> of the values its successive calls of \<^verbatim>\<open>Date.now()\<close> return
  (whole milliseconds since the epoch).
\<close>

typedef draw = "{u::real. 0 \<le> u \<and> u < 1 \<and> fl u = u}"
  morphisms val Draw
proof
  show "0 \<in> {u::real. 0 \<le> u \<and> u < 1 \<and> fl u = u}"
    by (simp add: fl_def rne_def)
qed

text \<open>The draw \<open>m / 2 ^ 53\<close>, for \<open>0 \<le> m < 2 ^ 53\<close>.\<close>

definition draw_of :: "int \<Rightarrow> draw" where
  "draw_of m = Draw (of_int m / 2 ^ 53)"

subsection \<open>Data\<close>

text \<open>The numeric fields hold finite numbers.\<close>

record WeatherData =
  city :: jsstring
  country :: jsstring
  temperature :: real
  feelsLike :: real
  condition :: jsstring
  humidity :: real
  windSpeed :: real
  icon :: jsstring

record ForecastDay =
  date :: jsstring
  tempMax :: real
  tempMin :: real
  condition :: jsstring
  icon :: jsstring

subsection \<open>Dates\<close>

text \<open>
  \<^verbatim>\<open>new Date(t).toLocaleDateString('en-US', {weekday: 'short', month: 'short', day: 'numeric'})\<close>
  belongs to the host. It prints the calendar day on which the instant \<open>t\<close> falls in
  the host's time zone, as in \<^verbatim>\<open>Sun, Nov 1\<close>. The time zone is the function \<open>tz\<close>
  that gives, for an instant, the milliseconds that local time is ahead of UTC then.
  \<open>civil\<close> turns a count of days since 1970-01-01 into year, month and day of the
  Gregorian calendar; day 0 was a Thursday.
\<close>

definition msPerDay :: int where
  "msPerDay = 24 * 60 * 60 * 1000"

definition localDay :: "(int \<Rightarrow> int) \<Rightarrow> int \<Rightarrow> int" where
  "localDay tz t = (t + tz t) div msPerDay"

definition weekday :: "int \<Rightarrow> nat" where
  "weekday day = nat ((day + 4) mod 7)"

definition civil :: "int \<Rightarrow> int \<times> nat \<times> nat" where
  "civil day =
     (let z = day + 719468;
          era = z div 146097;
          doe = z mod 146097;
          yoe = (doe - doe div 1460 + doe div 36524 - doe div 146096) div 365;
          doy = doe - (365 * yoe + yoe div 4 - yoe div 100);
          mp = (5 * doy + 2) div 153;
          d = doy - (153 * mp + 2) div 5 + 1;
          m = (if mp < 10 then mp + 3 else mp - 9);
          y = yoe + era * 400 + (if m \<le> 2 then 1 else 0)
      in (y, nat m, nat d))"

definition weekdays :: "jsstring list" where
  "weekdays = [lit ''Sun'', lit ''Mon'', lit ''Tue'', lit ''Wed'', lit ''Thu'', lit ''Fri'',
               lit ''Sat'']"

definition months :: "jsstring list" where
  "months = [lit ''Jan'', lit ''Feb'', lit ''Mar'', lit ''Apr'', lit ''May'', lit ''Jun'',
             lit ''Jul'', lit ''Aug'', lit ''Sep'', lit ''Oct'', lit ''Nov'', lit ''Dec'']"

definition decimal :: "nat \<Rightarrow> jsstring" where
  "decimal d = (if d < 10 then [of_nat (48 + d)]
                else [of_nat (48 + d div 10), of_nat (48 + d mod 10)])"

definition toLocaleDateString :: "(int \<Rightarrow> int) \<Rightarrow> int \<Rightarrow> jsstring" where
  "toLocaleDateString tz t =
     (if \<bar>t\<bar> \<le> 8640000000000000
      then (case civil (localDay tz t) of
              (y, m, d) \<Rightarrow>
                weekdays ! weekday (localDay tz t) @ lit '', '' @ months ! (m - 1)
                  @ lit '' '' @ decimal d)
      else lit ''Invalid Date'')"

text \<open>
  The zone \<^verbatim>\<open>America/New_York\<close> by its rule for 2026: four hours behind UTC from
  8 March, 07:00 UTC, to 1 November, 06:00 UTC, five hours behind otherwise.
\<close>

definition NewYork :: "int \<Rightarrow> int" where
  "NewYork t = (if 1772953200000 \<le> t \<and> t < 1793512800000 then - 4 * 3600000
                else - 5 * 3600000)"

subsection \<open>The mock generator\<close>

definition conditions :: "jsstring list" where
  "conditions = [lit ''Sunny'', lit ''Cloudy'', lit ''Rainy'', lit ''Partly Cloudy'',
                 lit ''Thunderstorm'', lit ''Snowy'']"

text \<open>\<^verbatim>\<open>conditions[Math.floor(Math.random() * conditions.length)]\<close>, for the draw \<open>u\<close>.\<close>

definition getRandomCondition :: "draw \<Rightarrow> jsstring" where
  "getRandomCondition u = conditions ! nat \<lfloor>fl (val u * real (length conditions))\<rfloor>"

text \<open>
  The object literal \<^verbatim>\<open>mockWeather\<close>; its properties are evaluated in source order, so
  they consume the draws 0 to 5. In \<^verbatim>\<open>Math.floor(Math.random() * 20) + 15\<close> the product
  is rounded, \<^verbatim>\<open>Math.floor\<close> is exact, and the sum is rounded; none of them overflows.
\<close>

definition mockWeather :: "(nat \<Rightarrow> draw) \<Rightarrow> jsstring \<Rightarrow> WeatherData" where
  "mockWeather rnd cityName =
     \<lparr> WeatherData.city = cityName,
       country = lit ''US'',
       temperature = fl (of_int \<lfloor>fl (val (rnd 0) * 20)\<rfloor> + 15),
       feelsLike = fl (of_int \<lfloor>fl (val (rnd 1) * 20)\<rfloor> + 13),
       WeatherData.condition = getRandomCondition (rnd 2),
       humidity = fl (of_int \<lfloor>fl (val (rnd 3) * 40)\<rfloor> + 40),
       windSpeed = fl (of_int \<lfloor>fl (val (rnd 4) * 20)\<rfloor> + 5),
       WeatherData.icon = getRandomCondition (rnd 5) \<rparr>"

text \<open>
  The callback of \<^verbatim>\<open>Array.from({ length: 5 }, (_, i) => ...)\<close>. It runs for
  \<open>i = 0, ..., 4\<close> in order, after \<open>mockWeather\<close> was built; entry \<open>i\<close> reads the
  clock once and draws four times. The instant is a whole number of milliseconds far
  below \<open>2 ^ 53\<close>, so its computation is exact.
\<close>

definition mockForecastDay ::
  "(nat \<Rightarrow> draw) \<Rightarrow> (nat \<Rightarrow> int) \<Rightarrow> (int \<Rightarrow> int) \<Rightarrow> nat \<Rightarrow> ForecastDay" where
  "mockForecastDay rnd clk tz i =
     \<lparr> date = toLocaleDateString tz (clk i + (int i + 1) * msPerDay),
       tempMax = fl (of_int \<lfloor>fl (val (rnd (6 + 4 * i)) * 15)\<rfloor> + 20),
       tempMin = fl (of_int \<lfloor>fl (val (rnd (7 + 4 * i)) * 10)\<rfloor> + 10),
       ForecastDay.condition = getRandomCondition (rnd (8 + 4 * i)),
       ForecastDay.icon = getRandomCondition (rnd (9 + 4 * i)) \<rparr>"

definition mockForecast ::
  "(nat \<Rightarrow> draw) \<Rightarrow> (nat \<Rightarrow> int) \<Rightarrow> (int \<Rightarrow> int) \<Rightarrow> ForecastDay list" where
  "mockForecast rnd clk tz = map (mockForecastDay rnd clk tz) [0..<5]"

subsection \<open>Presentation\<close>

text \<open>
  \<^verbatim>\<open>iconMap[condition]\<close> reads a property of an object literal: an own property if
  there is one, otherwise what the prototype chain holds, here \<^verbatim>\<open>Object.prototype\<close>,
  otherwise \<^verbatim>\<open>undefined\<close>. The value read is therefore not always a string.
\<close>

datatype jsvalue =
    JSUndefined
  | JSString jsstring
  | JSObjectPrototype jsstring

text \<open>The property names of \<^verbatim>\<open>Object.prototype\<close> (ECMAScript, 20.1.3).\<close>

definition ObjectPrototype_keys :: "jsstring list" where
  "ObjectPrototype_keys =
     [lit ''constructor'', lit ''hasOwnProperty'', lit ''isPrototypeOf'',
      lit ''propertyIsEnumerable'', lit ''toLocaleString'', lit ''toString'',
      lit ''valueOf'', lit ''__proto__'', lit ''__defineGetter__'',
      lit ''__defineSetter__'', lit ''__lookupGetter__'', lit ''__lookupSetter__'']"

definition Get :: "(jsstring \<times> jsstring) list \<Rightarrow> jsstring \<Rightarrow> jsvalue" where
  "Get obj key =
     (case map_of obj key of
        Some v \<Rightarrow> JSString v
      | None \<Rightarrow> if key \<in> set ObjectPrototype_keys then JSObjectPrototype key
                else JSUndefined)"

text \<open>
  \<^verbatim>\<open>a || b\<close> yields \<open>a\<close> when it is truthy: \<^verbatim>\<open>undefined\<close> and the empty string are
  not, every object and function is.
\<close>

fun ToBoolean :: "jsvalue \<Rightarrow> bool" where
  "ToBoolean JSUndefined = False"
| "ToBoolean (JSString s) = (s \<noteq> [])"
| "ToBoolean (JSObjectPrototype k) = True"

definition iconMap :: "(jsstring \<times> jsstring) list" where
  "iconMap =
     [(lit ''Sunny'', [0x2600, 0xFE0F]),
      (lit ''Cloudy'', [0x2601, 0xFE0F]),
      (lit ''Rainy'', [0xD83C, 0xDF27, 0xFE0F]),
      (lit ''Partly Cloudy'', [0x26C5]),
      (lit ''Thunderstorm'', [0x26C8, 0xFE0F]),
      (lit ''Snowy'', [0x2744, 0xFE0F])]"

definition fallbackIcon :: jsstring where
  "fallbackIcon = [0xD83C, 0xDF24, 0xFE0F]"

definition getWeatherIcon :: "jsstring \<Rightarrow> jsvalue" where
  "getWeatherIcon cond =
     (let v = Get iconMap cond in if ToBoolean v then v else JSString fallbackIcon)"

text \<open>\<^verbatim>\<open>Math.round((celsius * 9/5) + 32)\<close>: a product, a quotient and a sum, each rounded.\<close>

definition celsiusToFahrenheit :: "number \<Rightarrow> number" where
  "celsiusToFahrenheit celsius =
     Math_round (arith (\<lambda>x. x + 32) (arith (\<lambda>x. x / 5) (arith (\<lambda>x. x * 9) celsius)))"

text \<open>\<open>displayTemp\<close> closes over the state variable \<open>isCelsius\<close>, here its first argument.\<close>

definition displayTemp :: "bool \<Rightarrow> number \<Rightarrow> number" where
  "displayTemp isCelsius celsius =
     (if isCelsius then Math_round celsius else celsiusToFahrenheit celsius)"

subsection \<open>View state\<close>

record view =
  city :: jsstring
  searchInput :: jsstring
  currentWeather :: "WeatherData option"
  forecast :: "ForecastDay list"
  isCelsius :: bool
  loading :: bool
  error :: jsstring

text \<open>The initial values of the seven \<^verbatim>\<open>useState\<close> calls.\<close>

definition initial :: view where
  "initial = \<lparr> view.city = [], searchInput = [], currentWeather = None, forecast = [],
               isCelsius = True, loading = False, error = [] \<rparr>"

subsection \<open>Fetching\<close>

text \<open>
  \<^verbatim>\<open>fetchWeatherData\<close> runs in two parts. The first, up to the \<^verbatim>\<open>await\<close>, runs
  inside the caller.
\<close>

definition fetch_start :: "view \<Rightarrow> view" where
  "fetch_start s = s\<lparr> loading := True, error := [] \<rparr>"

text \<open>
  The second part runs when the timer fires. Inside \<^verbatim>\<open>try\<close>, the two mock values
  are built before the first setter is called; \<open>acquired\<close> is the outcome of that
  stretch (lines 41 to 67), \<open>Inl\<close> what it threw. The setters then store the values,
  \<^verbatim>\<open>catch\<close> sets the message, \<^verbatim>\<open>finally\<close> clears the loading flag.
\<close>

datatype thrown = Thrown jsstring

definition fetch_finish ::
  "thrown + WeatherData \<times> ForecastDay list \<Rightarrow> jsstring \<Rightarrow> view \<Rightarrow> view" where
  "fetch_finish acquired cityName s =
     (let s' = (case acquired of
                  Inr (w, f) \<Rightarrow>
                    s\<lparr> currentWeather := Some w, forecast := f, view.city := cityName \<rparr>
                | Inl err \<Rightarrow>
                    s\<lparr> error := lit ''Failed to fetch weather data. Please try again.'' \<rparr>)
      in s'\<lparr> loading := False \<rparr>)"

text \<open>With the mock data nothing in that stretch throws.\<close>

definition acquire ::
  "(nat \<Rightarrow> draw) \<Rightarrow> (nat \<Rightarrow> int) \<Rightarrow> (int \<Rightarrow> int) \<Rightarrow> jsstring \<Rightarrow>
   thrown + WeatherData \<times> ForecastDay list" where
  "acquire rnd clk tz cityName = Inr (mockWeather rnd cityName, mockForecast rnd clk tz)"

text \<open>A whole fetch, when no other event comes between its two parts.\<close>

definition fetchWeatherData ::
  "(nat \<Rightarrow> draw) \<Rightarrow> (nat \<Rightarrow> int) \<Rightarrow> (int \<Rightarrow> int) \<Rightarrow> jsstring \<Rightarrow> view \<Rightarrow> view" where
  "fetchWeatherData rnd clk tz cityName s =
     fetch_finish (acquire rnd clk tz cityName) cityName (fetch_start s)"

subsection \<open>User actions\<close>

text \<open>
  \<open>handleSearch\<close> returns the state it leaves and the argument of the call of
  \<^verbatim>\<open>fetchWeatherData\<close> it made, if it made one; that fetch is then pending.
\<close>

definition handleSearch :: "view \<Rightarrow> view \<times> jsstring option" where
  "handleSearch s =
     (if trim (searchInput s) \<noteq> []
      then ((fetch_start s)\<lparr> searchInput := [] \<rparr>, Some (trim (searchInput s)))
      else (s, None))"

definition toggleUnit :: "view \<Rightarrow> view" where
  "toggleUnit s = s\<lparr> isCelsius := \<not> isCelsius s \<rparr>"

text \<open>A submission followed by the completion of the fetch it started.\<close>

definition search ::
  "(nat \<Rightarrow> draw) \<Rightarrow> (nat \<Rightarrow> int) \<Rightarrow> (int \<Rightarrow> int) \<Rightarrow> view \<Rightarrow> view" where
  "search rnd clk tz s =
     (case handleSearch s of
        (s', None) \<Rightarrow> s'
      | (s', Some cityName) \<Rightarrow> fetch_finish (acquire rnd clk tz cityName) cityName s')"

subsection \<open>Rendering\<close>

text \<open>
  The temperatures on the page: the current one and the felt one, shown when
  \<^verbatim>\<open>!loading && currentWeather\<close>, and the high and low of each forecast card, shown
  when \<^verbatim>\<open>!loading && forecast.length > 0\<close>.
\<close>

definition shownCurrent :: "view \<Rightarrow> (number \<times> number) option" where
  "shownCurrent s =
     (case currentWeather s of
        Some w \<Rightarrow>
          if \<not> loading s
          then Some (displayTemp (isCelsius s) (Finite (temperature w)),
                     displayTemp (isCelsius s) (Finite (feelsLike w)))
          else None
      | None \<Rightarrow> None)"

definition shownForecast :: "view \<Rightarrow> (number \<times> number) list option" where
  "shownForecast s =
     (if \<not> loading s \<and> 0 < length (forecast s)
      then Some (map (\<lambda>day. (displayTemp (isCelsius s) (Finite (tempMax day)),
                             displayTemp (isCelsius s) (Finite (tempMin day)))) (forecast s))
      else None)"

section \<open>Properties\<close>

subsection \<open>Rounding\<close>

text \<open>
  The exponent found by halving and doubling is the binary exponent: for a positive
  \<open>x\<close> in the normal range, \<open>2 powi expo x \<le> x < 2 powi (expo x + 1)\<close>.
\<close>

lemma up_le: "up k x \<le> k"
  by (induction k arbitrary: x) auto

lemma up_lower: "1 \<le> x \<Longrightarrow> 2 ^ up k x \<le> x"
proof (induction k arbitrary: x)
  case 0
  then show ?case by simp
next
  case (Suc k)
  show ?case
  proof (cases "2 \<le> x")
    case True
    then have "2 ^ up k (x / 2) \<le> x / 2"
      by (intro Suc.IH) simp
    with True show ?thesis by simp
  next
    case False
    with Suc.prems show ?thesis by simp
  qed
qed

lemma up_upper: "x < 2 ^ Suc k \<Longrightarrow> x < 2 ^ Suc (up k x)"
proof (induction k arbitrary: x)
  case 0
  then show ?case by simp
next
  case (Suc k)
  show ?case
  proof (cases "2 \<le> x")
    case True
    from Suc.prems have "x / 2 < 2 ^ Suc k" by simp
    then have "x / 2 < 2 ^ Suc (up k (x / 2))"
      by (rule Suc.IH)
    with True show ?thesis by simp
  next
    case False
    then show ?thesis by simp
  qed
qed

lemma down_le: "down k x \<le> k"
  by (induction k arbitrary: x) auto

lemma down_ge_1: "1 \<le> y \<Longrightarrow> down k y = 0"
  by (cases k) auto

lemma down_upper: "x < 1 \<Longrightarrow> x * 2 ^ down k x < 2"
proof (induction k arbitrary: x)
  case 0
  then show ?case by simp
next
  case (Suc k)
  show ?case
  proof (cases "2 * x < 1")
    case True
    then have "2 * x * 2 ^ down k (2 * x) < 2"
      by (rule Suc.IH)
    with Suc.prems show ?thesis by (simp add: mult.assoc mult.left_commute)
  next
    case False
    then have "down k (2 * x) = 0"
      by (simp add: down_ge_1)
    with Suc.prems show ?thesis by simp
  qed
qed

lemma down_lower: "1 / 2 ^ k \<le> x \<Longrightarrow> x < 1 \<Longrightarrow> 1 \<le> x * 2 ^ down k x"
proof (induction k arbitrary: x)
  case 0
  then show ?case by simp
next
  case (Suc k)
  show ?case
  proof (cases "2 * x < 1")
    case True
    from Suc.prems(1) have "1 / 2 ^ k \<le> 2 * x"
      by (simp add: field_simps)
    then have "1 \<le> 2 * x * 2 ^ down k (2 * x)"
      using True by (rule Suc.IH)
    with Suc.prems show ?thesis by (simp add: mult.assoc mult.left_commute)
  next
    case False
    then have "down k (2 * x) = 0"
      by (simp add: down_ge_1)
    with Suc.prems False show ?thesis by simp
  qed
qed

lemma expo_range: "- 1022 \<le> expo x" "expo x \<le> 1024"
  using up_le [of 1024 x] down_le [of 1022 x] by (simp_all add: expo_def)

lemma expo_lower:
  assumes "2 powi (- 1022) \<le> x"
  shows "2 powi expo x \<le> x"
proof (cases "1 \<le> x")
  case True
  then show ?thesis
    using up_lower [of x 1024] by (simp add: expo_def)
next
  case False
  from assms have "1 / 2 ^ 1022 \<le> x"
    by (simp add: power_int_minus_divide)
  then have "1 \<le> x * 2 ^ down 1022 x"
    using False by (intro down_lower) simp_all
  then have "1 / 2 ^ down 1022 x \<le> x"
    by (simp add: field_simps)
  with False show ?thesis
    by (simp add: expo_def power_int_minus_divide)
qed

lemma expo_upper:
  assumes "x < 2 powi 1025"
  shows "x < 2 powi (expo x + 1)"
proof (cases "1 \<le> x")
  case True
  from assms have "x < 2 ^ Suc 1024" by simp
  then have "x < 2 ^ Suc (up 1024 x)"
    by (rule up_upper)
  with True show ?thesis
    by (simp add: expo_def power_int_add)
next
  case False
  then have "x * 2 ^ down 1022 x < 2"
    by (intro down_upper) simp
  then have "x < 2 / 2 ^ down 1022 x"
    by (simp add: field_simps)
  also have "\<dots> = 2 powi (1 - int (down 1022 x))"
    using power_int_diff [of "2::real" 1 "int (down 1022 x)"] by simp
  finally show ?thesis
    using False by (simp add: expo_def)
qed

text \<open>Rounding to an integer moves a number by at most one half and fixes the integers.\<close>

lemma rne_error: "\<bar>real_of_int (rne r) - r\<bar> \<le> 1 / 2"
  unfolding rne_def Let_def by (auto simp add: abs_le_iff)

lemma rne_of_int: "rne (of_int k) = k"
  by (simp add: rne_def)

lemma fl_0: "fl 0 = 0"
  by (simp add: fl_def rne_def)

lemma rne_minus: "rne (- r) = - rne r"
proof (cases "r \<in> \<int>")
  case True
  then obtain k where "r = of_int k" by (auto elim: Ints_cases)
  then show ?thesis
    using rne_of_int [of k] rne_of_int [of "- k"] by simp
next
  case False
  have ne: "r \<noteq> of_int \<lfloor>r\<rfloor>"
    using False Ints_of_int [of "\<lfloor>r\<rfloor>"] by metis
  then have f: "\<lfloor>- r\<rfloor> = - \<lfloor>r\<rfloor> - 1"
    by (simp add: floor_minus ceiling_altdef)
  have fr: "0 < r - of_int \<lfloor>r\<rfloor>"
    using ne of_int_floor_le [of r] by linarith
  show ?thesis
    unfolding rne_def Let_def f using fr by (auto simp add: algebra_simps)
qed

lemma fl_minus: "fl (- x) = - fl x"
  by (simp add: fl_def rne_minus)


lemma inverse_pow2_le_1: "(1::real) / 2 ^ k \<le> 1"
  by (simp add: divide_le_eq)

lemma down_full: "x < 1 / 2 ^ k \<Longrightarrow> down k x = k"
proof (induction k arbitrary: x)
  case 0
  then show ?case by simp
next
  case (Suc k)
  from Suc.prems inverse_pow2_le_1 [of "Suc k"] have x1: "x < 1"
    by (rule less_le_trans)
  from Suc.prems have "2 * x < 1 / 2 ^ k"
    by (simp add: field_simps)
  then have "down k (2 * x) = k"
    by (rule Suc.IH)
  with x1 show ?case by simp
qed

lemma expo_small:
  assumes "x < 2 powi (- 1022)"
  shows "expo x = - 1022"
proof -
  from assms have x: "x < 1 / 2 ^ 1022"
    by (simp only: power_int_minus_divide power_int_numeral)
  from x inverse_pow2_le_1 [of 1022] have x1: "x < 1"
    by (rule less_le_trans)
  from x have "down 1022 x = 1022"
    by (rule down_full)
  with x1 show ?thesis by (simp add: expo_def)
qed

lemma pow2_less_cancel: "(2::real) powi a < 2 powi b \<Longrightarrow> a < b"
  using power_int_increasing [of b a "2::real"] by (cases "a < b") simp_all

lemma pow2_le_less_trans: "(2::real) powi a \<le> x \<Longrightarrow> x < 2 powi b \<Longrightarrow> a < b"
  by (rule pow2_less_cancel) simp

lemma expo_eq:
  assumes "2 powi e \<le> x" and "x < 2 powi (e + 1)" and "- 1022 \<le> e" and "e \<le> 1024"
  shows "expo x = e"
proof -
  have "(2::real) powi (- 1022) \<le> 2 powi e"
    using assms(3) by (intro power_int_increasing) simp_all
  with assms(1) have "2 powi (- 1022) \<le> x" by simp
  then have "2 powi expo x \<le> x"
    by (rule expo_lower)
  from this assms(2) have a: "expo x < e + 1"
    by (rule pow2_le_less_trans)
  have "(2::real) powi (e + 1) \<le> 2 powi 1025"
    using assms(4) by (intro power_int_increasing) simp_all
  with assms(2) have "x < 2 powi 1025" by simp
  then have "x < 2 powi (expo x + 1)"
    by (rule expo_upper)
  from assms(1) this have "e < expo x + 1"
    by (rule pow2_le_less_trans)
  with a show ?thesis by simp
qed

lemma expo_less:
  assumes "x < 2 powi E" and "- 1021 \<le> E"
  shows "expo x \<le> E - 1"
proof (cases "x < 2 powi (- 1022)")
  case True
  then show ?thesis
    using assms(2) by (simp add: expo_small)
next
  case False
  then have "2 powi expo x \<le> x"
    by (intro expo_lower) simp
  from this assms(1) have "expo x < E"
    by (rule pow2_le_less_trans)
  then show ?thesis by simp
qed




lemma rne_nonneg: "0 \<le> r \<Longrightarrow> 0 \<le> rne r"
  unfolding rne_def Let_def by auto

lemma rne_less:
  assumes "r < of_int N - 1 / 2"
  shows "rne r \<le> N - 1"
proof -
  have "real_of_int (rne r) < of_int N"
    using rne_error [of r] assms by linarith
  then show ?thesis by simp
qed

lemma rne_abs_le:
  assumes "\<bar>r\<bar> < of_int N"
  shows "\<bar>rne r\<bar> \<le> N"
proof -
  have e: "real_of_int (rne r) - r \<le> 1 / 2" "r - real_of_int (rne r) \<le> 1 / 2"
    using rne_error [of r] by (simp_all only: abs_le_iff minus_diff_eq)
  have a: "r < of_int N" "- r < of_int N"
    using assms by (simp_all only: abs_less_iff)
  have "real_of_int (rne r) < of_int N + 1" and "- of_int N - 1 < real_of_int (rne r)"
    using e a by linarith+
  then have "real_of_int (rne r) < of_int (N + 1)" and "of_int (- N - 1) < real_of_int (rne r)"
    by simp_all
  then have "rne r < N + 1" and "- N - 1 < rne r"
    by (simp_all only: of_int_less_iff)
  then show ?thesis by simp
qed

lemma pow2_add: "(2::real) powi (a + b) = 2 powi a * 2 powi b"
  by (rule power_int_add) simp

lemma pow2_53: "(2::real) powi (e + 1) = 2 ^ 53 * 2 powi (e - 52)"
proof -
  have "e + 1 = 53 + (e - 52)" by simp
  then have "(2::real) powi (e + 1) = 2 powi 53 * 2 powi (e - 52)"
    by (simp only: pow2_add)
  then show ?thesis by (simp only: power_int_numeral)
qed

lemma fl_nonneg: "0 \<le> x \<Longrightarrow> 0 \<le> fl x"
  by (simp add: fl_def rne_nonneg)

lemma fl_eval:
  assumes "2 powi e \<le> \<bar>x\<bar>" and "\<bar>x\<bar> < 2 powi (e + 1)" and "- 1022 \<le> e" and "e \<le> 1024"
  shows "fl x = of_int (rne (x / 2 powi (e - 52))) * 2 powi (e - 52)"
  by (simp add: fl_def expo_eq [OF assms])

text \<open>Rounding does not cross a power of two.\<close>

lemma fl_le_pow:
  assumes "\<bar>x\<bar> < 2 powi E" and "- 1021 \<le> E" and "E \<le> 1025"
  shows "\<bar>fl x\<bar> \<le> 2 powi E"
proof -
  define e where "e = expo \<bar>x\<bar>"
  define q :: real where "q = 2 powi (e - 52)"
  have q: "0 < q" by (simp add: q_def)
  have e: "e \<le> E - 1"
    unfolding e_def using assms(1,2) by (rule expo_less)
  have "(2::real) powi E \<le> 2 powi 1025"
    using assms(3) by (intro power_int_increasing) simp_all
  with assms(1) have "\<bar>x\<bar> < 2 powi 1025" by simp
  then have "\<bar>x\<bar> < 2 powi (e + 1)"
    unfolding e_def by (rule expo_upper)
  also have "\<dots> = 2 ^ 53 * q"
    by (simp only: pow2_53 q_def)
  finally have "\<bar>x\<bar> / q < 2 ^ 53"
    using q by (simp only: pos_divide_less_eq)
  then have "\<bar>x / q\<bar> < of_int (2 ^ 53)"
    using q by (simp only: abs_divide abs_of_pos of_int_power of_int_numeral)
  then have "\<bar>rne (x / q)\<bar> \<le> 2 ^ 53"
    by (rule rne_abs_le)
  then have "\<bar>real_of_int (rne (x / q))\<bar> \<le> 2 ^ 53"
    by (metis of_int_abs of_int_le_iff of_int_numeral of_int_power)
  then have "\<bar>real_of_int (rne (x / q))\<bar> * q \<le> 2 ^ 53 * q"
    using q by (intro mult_right_mono) simp_all
  moreover have "\<bar>fl x\<bar> = \<bar>real_of_int (rne (x / q))\<bar> * q"
    using q by (simp only: fl_def e_def q_def abs_mult abs_of_pos)
  ultimately have "\<bar>fl x\<bar> \<le> 2 ^ 53 * q"
    by (simp only:)
  also have "\<dots> = 2 powi (e + 1)"
    by (simp only: pow2_53 q_def)
  also have "\<dots> \<le> 2 powi E"
    using e by (intro power_int_increasing) simp_all
  finally show ?thesis .
qed

text \<open>
  The numbers \<open>M * 2 powi j\<close> with \<open>\<bar>M\<bar> < 2 ^ 53\<close> and \<open>- 1074 \<le> j\<close> are those that
  rounding leaves as they are; the integers below \<open>2 ^ 53\<close> are among them.
\<close>

lemma fl_repr:
  assumes "x = of_int M * 2 powi j" and "\<bar>M\<bar> < 2 ^ 53" and "- 1074 \<le> j"
  shows "fl x = x"
proof -
  define e where "e = expo \<bar>x\<bar>"
  have ej: "e - 52 \<le> j"
  proof (cases "\<bar>x\<bar> < 2 powi (- 1022)")
    case True
    then have "e = - 1022"
      unfolding e_def by (rule expo_small)
    with assms(3) show ?thesis by simp
  next
    case False
    then have "2 powi e \<le> \<bar>x\<bar>"
      unfolding e_def by (intro expo_lower) simp
    moreover have "\<bar>x\<bar> < 2 powi (53 + j)"
    proof -
      have "\<bar>x\<bar> = \<bar>real_of_int M\<bar> * 2 powi j"
        by (simp add: assms(1) abs_mult)
      also have "\<dots> < 2 ^ 53 * 2 powi j"
        using assms(2) by (intro mult_strict_right_mono) (simp_all flip: of_int_abs)
      also have "\<dots> = 2 powi (53 + j)"
        by (simp only: pow2_add power_int_numeral)
      finally show ?thesis .
    qed
    ultimately have "e < 53 + j"
      by (rule pow2_le_less_trans)
    then show ?thesis by simp
  qed
  define d where "d = nat (j - (e - 52))"
  have "j = (e - 52) + int d"
    using ej by (simp add: d_def)
  then have "(2::real) powi j = 2 powi (e - 52) * 2 powi (int d)"
    by (simp only: pow2_add)
  then have "(2::real) powi j = 2 powi (e - 52) * 2 ^ d"
    by (simp only: power_int_of_nat)
  then have xq: "x = of_int (M * 2 ^ d) * 2 powi (e - 52)"
    by (simp add: assms(1))
  then have "x / 2 powi (e - 52) = of_int (M * 2 ^ d)"
    by simp
  then have "rne (x / 2 powi (e - 52)) = M * 2 ^ d"
    by (simp only: rne_of_int)
  then have "fl x = of_int (M * 2 ^ d) * 2 powi (e - 52)"
    by (simp only: fl_def e_def)
  with xq show ?thesis by simp
qed

lemma fl_of_int: "\<bar>k\<bar> < 2 ^ 53 \<Longrightarrow> fl (of_int k) = of_int k"
  using fl_repr [of "of_int k" k 0] by simp


text \<open>
  The largest number below 1 is \<open>1 - 1 / 2 ^ 53\<close>. This keeps the rounded product of
  a draw with 6, 10, 15, 20 or 40 below that factor: between \<open>2 ^ E\<close> and the factor
  \<open>n\<close> the numbers lie \<open>1 / 2 ^ (52 - E)\<close> apart, and the exact product stays more
  than half of that below \<open>n\<close>.
\<close>

lemma double_below_1:
  assumes "fl u = u" and "1 / 2 \<le> u" and "u < 1"
  shows "u \<le> 1 - 1 / 2 ^ 53"
proof -
  have "fl u = of_int (rne (u / 2 powi (- 1 - 52))) * 2 powi (- 1 - 52)"
    using assms(2,3) by (intro fl_eval) simp_all
  then have "u = of_int (rne (u * 2 ^ 53)) / 2 ^ 53"
    by (simp add: assms(1) power_int_minus_divide)
  then obtain M :: int where M: "u = of_int M / 2 ^ 53" ..
  with assms(3) have "real_of_int M < of_int (2 ^ 53)"
    by simp
  then have "M < 2 ^ 53"
    by (simp only: of_int_less_iff)
  then have "M \<le> 2 ^ 53 - 1" by simp
  then have "real_of_int M \<le> of_int (2 ^ 53 - 1)"
    by (simp only: of_int_le_iff)
  then show ?thesis
    by (simp add: M field_simps)
qed

lemma fl_scaled_draw:
  fixes n E :: nat
  assumes "fl u = u" and "0 \<le> u" and "u < 1"
    and "2 ^ E < n" and "n < 2 ^ Suc E" and "E \<le> 52"
  shows "0 \<le> fl (u * real n)" and "fl (u * real n) < real n"
proof -
  let ?x = "u * real n"
  have "real (2 ^ E) < real n" and "real n < real (2 ^ Suc E)"
    using assms(4,5) by (simp_all only: of_nat_less_iff)
  then have nl: "2 ^ E < real n" and nu: "real n < 2 * 2 ^ E"
    by simp_all
  have n0: "0 < real n"
    using nl by (rule less_trans [rotated]) simp
  have x0: "0 \<le> ?x"
    using assms(2) by simp
  have xn: "?x < real n"
    using assms(3) n0 by simp
  show "0 \<le> fl ?x"
    using x0 by (rule fl_nonneg)
  show "fl ?x < real n"
  proof (cases "?x < 2 ^ E")
    case True
    with x0 have "\<bar>?x\<bar> < 2 powi int E"
      by simp
    then have "\<bar>fl ?x\<bar> \<le> 2 powi int E"
      using assms(6) by (intro fl_le_pow) simp_all
    then have "fl ?x \<le> 2 ^ E"
      by simp
    from this nl show ?thesis
      by (rule le_less_trans)
  next
    case False
    define P :: real where "P = 2 ^ (52 - E)"
    have P: "0 < P" by (simp add: P_def)
    have "int E - 52 = - int (52 - E)"
      using assms(6) by simp
    then have q: "(2::real) powi (int E - 52) = 1 / P"
      by (simp only: power_int_minus_divide power_int_of_nat P_def)
    have "\<bar>?x\<bar> < 2 powi (int E + 1)"
      using x0 xn nu by (simp add: power_int_add)
    moreover have "2 powi int E \<le> \<bar>?x\<bar>"
      using False x0 by simp
    ultimately have "fl ?x = of_int (rne (?x / 2 powi (int E - 52))) * 2 powi (int E - 52)"
      using assms(6) by (intro fl_eval) simp_all
    then have ev: "fl ?x = of_int (rne (?x * P)) / P"
      by (simp add: q)
    have "1 / 2 \<le> u"
    proof (rule ccontr)
      assume "\<not> 1 / 2 \<le> u"
      then have "u * real n \<le> 1 / 2 * real n"
        using n0 by (intro mult_right_mono) simp_all
      with nu False show False by simp
    qed
    then have ub: "u \<le> 1 - 1 / 2 ^ 53"
      using assms(1,3) by (intro double_below_1)
    have "52 - E + Suc E = 53"
      using assms(6) by simp
    then have PP: "P * 2 ^ Suc E = 2 ^ 53"
      by (simp only: P_def flip: power_add)
    have "?x * P \<le> (1 - 1 / 2 ^ 53) * (real n * P)"
      using ub n0 P by (simp add: mult_right_mono)
    also have "\<dots> = real n * P - real n * P / (P * 2 ^ Suc E)"
      by (simp only: PP) (simp add: algebra_simps)
    also have "\<dots> = real n * P - real n / (2 * 2 ^ E)"
      using P by simp
    also have "\<dots> < real n * P - 1 / 2"
      using nl by (simp add: field_simps)
    finally have "?x * P < of_int (int n * 2 ^ (52 - E)) - 1 / 2"
      by (simp add: P_def)
    then have "rne (?x * P) \<le> int n * 2 ^ (52 - E) - 1"
      by (rule rne_less)
    then have "real_of_int (rne (?x * P)) \<le> of_int (int n * 2 ^ (52 - E) - 1)"
      by (simp only: of_int_le_iff)
    then have "real_of_int (rne (?x * P)) \<le> real n * P - 1"
      by (simp add: P_def)
    then have "fl ?x \<le> (real n * P - 1) / P"
      using P by (simp only: ev divide_right_mono less_imp_le)
    also have "\<dots> < real n"
      using P by (simp add: field_simps)
    finally show ?thesis .
  qed
qed

subsection \<open>Random draws\<close>

lemma val_range: "0 \<le> val u" "val u < 1" "fl (val u) = val u"
  using val [of u] by simp_all

lemma val_Draw: "0 \<le> x \<Longrightarrow> x < 1 \<Longrightarrow> fl x = x \<Longrightarrow> val (Draw x) = x"
  by (simp add: Draw_inverse)

lemma floor_scaled_draw:
  fixes n E :: nat
  assumes "2 ^ E < n" and "n < 2 ^ Suc E" and "E \<le> 52"
  shows "0 \<le> \<lfloor>fl (val u * real n)\<rfloor>" and "\<lfloor>fl (val u * real n)\<rfloor> < int n"
proof -
  note b = fl_scaled_draw [OF val_range(3) val_range(1) val_range(2) assms, of u]
  from b(1) show "0 \<le> \<lfloor>fl (val u * real n)\<rfloor>"
    by simp
  from b(2) show "\<lfloor>fl (val u * real n)\<rfloor> < int n"
    by (simp add: floor_less_iff)
qed

lemma scaled_draw_value:
  fixes n E :: nat and b :: int
  assumes "2 ^ E < n" and "n < 2 ^ Suc E" and "E \<le> 52" and "0 \<le> b" and "b + int n \<le> 2 ^ 53"
  shows "\<exists>k. fl (of_int \<lfloor>fl (val u * real n)\<rfloor> + of_int b) = of_int k \<and> b \<le> k \<and> k < b + int n"
proof -
  define k where "k = \<lfloor>fl (val u * real n)\<rfloor> + b"
  have r: "b \<le> k" "k < b + int n"
    using floor_scaled_draw [OF assms(1-3), of u] by (simp_all add: k_def)
  with assms(4,5) have "\<bar>k\<bar> < 2 ^ 53"
    by simp
  then have "fl (of_int k) = of_int k"
    by (rule fl_of_int)
  then have "fl (of_int \<lfloor>fl (val u * real n)\<rfloor> + of_int b) = of_int k"
    by (simp add: k_def)
  with r show ?thesis by blast
qed

lemma scaled_draw_range:
  fixes n E :: nat and b :: int
  assumes "2 ^ E < n" and "n < 2 ^ Suc E" and "E \<le> 52" and "0 \<le> b" and "b + int n \<le> 2 ^ 53"
  shows "of_int b \<le> fl (of_int \<lfloor>fl (val u * real n)\<rfloor> + of_int b)"
    and "fl (of_int \<lfloor>fl (val u * real n)\<rfloor> + of_int b) < of_int (b + int n)"
proof -
  from scaled_draw_value [OF assms, of u] obtain k
    where k: "fl (of_int \<lfloor>fl (val u * real n)\<rfloor> + of_int b) = of_int k" "b \<le> k" "k < b + int n"
    by blast
  show "of_int b \<le> fl (of_int \<lfloor>fl (val u * real n)\<rfloor> + of_int b)"
    using k(2) by (simp only: k(1) of_int_le_iff)
  show "fl (of_int \<lfloor>fl (val u * real n)\<rfloor> + of_int b) < of_int (b + int n)"
    using k(3) by (simp only: k(1) of_int_less_iff)
qed

lemma length_conditions: "length conditions = 6"
  by (simp add: conditions_def)

lemma getRandomCondition_index:
  "nat \<lfloor>fl (val u * real (length conditions))\<rfloor> < length conditions"
proof -
  have "0 \<le> \<lfloor>fl (val u * real 6)\<rfloor>" and "\<lfloor>fl (val u * real 6)\<rfloor> < int 6"
    by (rule floor_scaled_draw [where E = 2]; simp)+
  then have "nat \<lfloor>fl (val u * real 6)\<rfloor> < 6"
    by linarith
  then show ?thesis
    by (simp only: length_conditions)
qed

lemma getRandomCondition_in_conditions: "getRandomCondition u \<in> set conditions"
  unfolding getRandomCondition_def by (rule nth_mem) (rule getRandomCondition_index)

lemma val_draw_of:
  assumes "0 \<le> m" and "m < 2 ^ 53"
  shows "val (draw_of m) = of_int m / 2 ^ 53"
proof -
  have "fl (of_int m / 2 ^ 53) = of_int m / 2 ^ 53"
    by (rule fl_repr [where M = m and j = "- 53"])
      (use assms in \<open>simp_all add: power_int_minus_divide\<close>)
  moreover have "real_of_int m < real_of_int (2 ^ 53)"
    using assms(2) by (simp only: of_int_less_iff)
  ultimately show ?thesis
    using assms(1) by (simp add: draw_of_def val_Draw)
qed

subsection \<open>The current reading\<close>

text \<open>
  A run with every draw at the number written \<^verbatim>\<open>0.95\<close>, which is
  \<open>8556839292003942 / 2 ^ 53\<close>: the products with 20 and 40 round up to 19 and 38.
\<close>

lemma val_draw_095: "val (draw_of 8556839292003942) = 8556839292003942 / 2 ^ 53"
  using val_draw_of [of 8556839292003942] by simp

lemma fl_draw_095_20: "fl (val (draw_of 8556839292003942) * 20) = 19"
  unfolding val_draw_095 by (subst fl_eval [where e = 4]) (simp_all add: rne_def)

lemma fl_draw_095_40: "fl (val (draw_of 8556839292003942) * 40) = 38"
  unfolding val_draw_095 by (subst fl_eval [where e = 5]) (simp_all add: rne_def)

lemma fl_draw_095_6: "\<lfloor>fl (val (draw_of 8556839292003942) * 6)\<rfloor> = 5"
  unfolding val_draw_095 by (subst fl_eval [where e = 2]) (simp_all add: rne_def)

lemma fl_small_int: "fl 34 = 34" "fl 32 = 32" "fl 78 = 78" "fl 24 = 24" "fl 29 = 29" "fl 16 = 16"
  using fl_of_int [of 34] fl_of_int [of 32] fl_of_int [of 78] fl_of_int [of 24]
    fl_of_int [of 29] fl_of_int [of 16]
  by simp_all

lemma mockWeather_example:
  "mockWeather (\<lambda>k. draw_of 8556839292003942) (lit ''Paris'') =
     \<lparr> WeatherData.city = lit ''Paris'', country = lit ''US'', temperature = 34,
       feelsLike = 32, WeatherData.condition = lit ''Snowy'', humidity = 78,
       windSpeed = 24, WeatherData.icon = lit ''Snowy'' \<rparr>"
  by (simp add: mockWeather_def getRandomCondition_def conditions_def fl_draw_095_20
      fl_draw_095_40 fl_draw_095_6 fl_small_int)

text \<open>
  C1. Whatever the draws are, the generated reading has
  \<open>15 \<le> temperature < 35\<close>, \<open>13 \<le> feelsLike < 33\<close>, \<open>40 \<le> humidity < 80\<close> and
  \<open>5 \<le> windSpeed < 25\<close>, its condition is one of the six labels, and its country is
  the constant \<^verbatim>\<open>'US'\<close>.
\<close>

theorem mockWeather_ranges:
  "15 \<le> temperature (mockWeather rnd c) \<and> temperature (mockWeather rnd c) < 35 \<and>
   13 \<le> feelsLike (mockWeather rnd c) \<and> feelsLike (mockWeather rnd c) < 33 \<and>
   40 \<le> humidity (mockWeather rnd c) \<and> humidity (mockWeather rnd c) < 80 \<and>
   5 \<le> windSpeed (mockWeather rnd c) \<and> windSpeed (mockWeather rnd c) < 25 \<and>
   WeatherData.condition (mockWeather rnd c) \<in> set conditions \<and>
   conditions = [lit ''Sunny'', lit ''Cloudy'', lit ''Rainy'', lit ''Partly Cloudy'',
                 lit ''Thunderstorm'', lit ''Snowy''] \<and>
   country (mockWeather rnd c) = lit ''US''"
proof -
  have t: "15 \<le> temperature (mockWeather rnd c)" "temperature (mockWeather rnd c) < 35"
    using scaled_draw_range [where n = 20 and E = 4 and b = 15 and u = "rnd 0"]
    by (simp_all add: mockWeather_def)
  have f: "13 \<le> feelsLike (mockWeather rnd c)" "feelsLike (mockWeather rnd c) < 33"
    using scaled_draw_range [where n = 20 and E = 4 and b = 13 and u = "rnd 1"]
    by (simp_all add: mockWeather_def)
  have h: "40 \<le> humidity (mockWeather rnd c)" "humidity (mockWeather rnd c) < 80"
    using scaled_draw_range [where n = 40 and E = 5 and b = 40 and u = "rnd 3"]
    by (simp_all add: mockWeather_def)
  have w: "5 \<le> windSpeed (mockWeather rnd c)" "windSpeed (mockWeather rnd c) < 25"
    using scaled_draw_range [where n = 20 and E = 4 and b = 5 and u = "rnd 4"]
    by (simp_all add: mockWeather_def)
  have k: "WeatherData.condition (mockWeather rnd c) \<in> set conditions"
    by (simp add: mockWeather_def getRandomCondition_in_conditions)
  have u: "country (mockWeather rnd c) = lit ''US''"
    by (simp add: mockWeather_def)
  from t f h w k u show ?thesis
    by (simp only: conditions_def simp_thms)
qed

subsection \<open>The forecast\<close>

lemma mockForecast_nth:
  "i < 5 \<Longrightarrow> mockForecast rnd clk tz ! i = mockForecastDay rnd clk tz i"
  by (simp add: mockForecast_def)

lemma mockForecastDay_ranges:
  "20 \<le> tempMax (mockForecastDay rnd clk tz i)"
  "tempMax (mockForecastDay rnd clk tz i) < 35"
  "10 \<le> tempMin (mockForecastDay rnd clk tz i)"
  "tempMin (mockForecastDay rnd clk tz i) < 20"
  using scaled_draw_range [where n = 15 and E = 3 and b = 20 and u = "rnd (6 + 4 * i)"]
        scaled_draw_range [where n = 10 and E = 3 and b = 10 and u = "rnd (7 + 4 * i)"]
  by (simp_all add: mockForecastDay_def)

lemma mockForecast_ranges:
  assumes "i < 5"
  shows "length (mockForecast rnd clk tz) = 5"
    and "20 \<le> tempMax (mockForecast rnd clk tz ! i)"
    and "tempMax (mockForecast rnd clk tz ! i) < 35"
    and "10 \<le> tempMin (mockForecast rnd clk tz ! i)"
    and "tempMin (mockForecast rnd clk tz ! i) < 20"
    and "ForecastDay.condition (mockForecast rnd clk tz ! i) \<in> set conditions"
    and "date (mockForecast rnd clk tz ! i)
           = toLocaleDateString tz (clk i + (int i + 1) * msPerDay)"
proof -
  note nth = mockForecast_nth [OF assms, of rnd clk tz]
  show "length (mockForecast rnd clk tz) = 5"
    by (simp add: mockForecast_def)
  show "20 \<le> tempMax (mockForecast rnd clk tz ! i)"
    by (simp only: nth mockForecastDay_ranges)
  show "tempMax (mockForecast rnd clk tz ! i) < 35"
    by (simp only: nth mockForecastDay_ranges)
  show "10 \<le> tempMin (mockForecast rnd clk tz ! i)"
    by (simp only: nth mockForecastDay_ranges)
  show "tempMin (mockForecast rnd clk tz ! i) < 20"
    by (simp only: nth mockForecastDay_ranges)
  show "ForecastDay.condition (mockForecast rnd clk tz ! i) \<in> set conditions"
    by (simp add: nth mockForecastDay_def getRandomCondition_in_conditions)
  show "date (mockForecast rnd clk tz ! i)
          = toLocaleDateString tz (clk i + (int i + 1) * msPerDay)"
    by (simp add: nth mockForecastDay_def)
qed

text \<open>
  The draw written \<^verbatim>\<open>0.6\<close> is \<open>5404319552844595 / 2 ^ 53\<close>: its products with 15 and
  10 round up to 9 and 6.
\<close>

lemma val_draw_06: "val (draw_of 5404319552844595) = 5404319552844595 / 2 ^ 53"
  using val_draw_of [of 5404319552844595] by simp

lemma fl_draw_06_15: "fl (val (draw_of 5404319552844595) * 15) = 9"
  unfolding val_draw_06 by (subst fl_eval [where e = 3]) (simp_all add: rne_def)

lemma fl_draw_06_10: "fl (val (draw_of 5404319552844595) * 10) = 6"
  unfolding val_draw_06 by (subst fl_eval [where e = 2]) (simp_all add: rne_def)

lemma mockForecastDay_example:
  "tempMax (mockForecastDay (\<lambda>k. draw_of 5404319552844595) clk tz i) = 29"
  "tempMin (mockForecastDay (\<lambda>k. draw_of 5404319552844595) clk tz i) = 16"
  by (simp_all add: mockForecastDay_def fl_draw_06_15 fl_draw_06_10 fl_small_int)

text \<open>
  Where local time keeps the same distance from UTC, entry \<open>i\<close> falls on the
  calendar day \<open>i + 1\<close> days after the day of the clock reading.
\<close>

lemma localDay_fixed_offset:
  assumes "\<And>t. tz t = c"
  shows "localDay tz (now + (int i + 1) * msPerDay) = localDay tz now + int i + 1"
proof -
  have "msPerDay \<noteq> 0"
    by (simp add: msPerDay_def)
  then have "(now + c + (int i + 1) * msPerDay) div msPerDay = (now + c) div msPerDay + (int i + 1)"
    by simp
  moreover have "now + (int i + 1) * msPerDay + c = now + c + (int i + 1) * msPerDay"
    by simp
  ultimately show ?thesis
    by (simp only: localDay_def assms add.assoc)
qed

text \<open>
  In New York the night from 31 October to 1 November 2026 has 25 hours. At 00:30 on
  31 October the instants 24 and 48 hours later both fall on 1 November.
\<close>

lemma NewYork_labels:
  "toLocaleDateString NewYork (1793421000000 + (int 0 + 1) * msPerDay) = lit ''Sun, Nov 1''"
  "toLocaleDateString NewYork (1793421000000 + (int 1 + 1) * msPerDay) = lit ''Sun, Nov 1''"
  "toLocaleDateString NewYork (1793421000000 + (int 2 + 1) * msPerDay) = lit ''Mon, Nov 2''"
  "toLocaleDateString NewYork 1793421000000 = lit ''Sat, Oct 31''"
  by code_simp+

text \<open>
  C2. The forecast is meant to date entry \<open>i\<close> exactly \<open>i + 1\<close> days after the
  reference time, with strictly increasing dates. With the clock at 1793421000000
  (00:30 on Saturday, 31 October 2026, in New York) entries 0 and 1 carry the same
  date, Sunday, 1 November: the code adds multiples of 24 hours, and that day is
  longer. The length of the forecast, the two ranges and the conditions are as
  claimed, for all draws and clocks (lemma \<open>mockForecast_ranges\<close>).
\<close>

theorem mockForecast_repeats_a_day:
  "date (mockForecast rnd (\<lambda>k. 1793421000000) NewYork ! 0) = lit ''Sun, Nov 1'' \<and>
   date (mockForecast rnd (\<lambda>k. 1793421000000) NewYork ! 1) = lit ''Sun, Nov 1'' \<and>
   toLocaleDateString NewYork 1793421000000 = lit ''Sat, Oct 31''"
  using mockForecast_ranges(7) [of 0 rnd "\<lambda>k. 1793421000000" NewYork]
        mockForecast_ranges(7) [of 1 rnd "\<lambda>k. 1793421000000" NewYork]
  by (simp only: NewYork_labels)

subsection \<open>Temperature display\<close>

lemma round64_eval: "fl x = y \<Longrightarrow> \<bar>y\<bar> < 2 ^ 1024 \<Longrightarrow> round64 x = Finite y"
  by (simp add: round64_def)






text \<open>
  The roundings show on a fraction already: for the number written
  \<^verbatim>\<open>0.2777777777777777\<close>, which is \<open>312749974122951 / 2 ^ 50\<close>, the sum rounds up
  to \<open>32.5\<close> and the page shows 33, where the exact value rounds to 32.
\<close>

lemma displayTemp_example:
  "displayTemp False (Finite (312749974122951 / 2 ^ 50)) = Finite 33"
proof -
  define a :: real where "a = 2814749767106559 / 2 ^ 50"
  define b :: real where "b = 9007199254740989 / 2 ^ 54"
  have "fl a = a"
    by (rule fl_repr [where M = 2814749767106559 and j = "- 50"])
      (simp_all add: a_def power_int_minus_divide)
  moreover have "312749974122951 / 2 ^ 50 * 9 = a"
    by (simp add: a_def)
  ultimately have "fl (312749974122951 / 2 ^ 50 * 9) = a"
    by (simp only:)
  then have s1: "round64 (312749974122951 / 2 ^ 50 * 9) = Finite a"
    by (rule round64_eval) (simp add: a_def)
  have "fl (a / 5) = b"
    unfolding a_def b_def by (subst fl_eval [where e = "- 2"]) (simp_all add: rne_def)
  then have s2: "round64 (a / 5) = Finite b"
    by (rule round64_eval) (simp add: b_def)
  have "fl (b + 32) = 65 / 2"
    unfolding b_def by (subst fl_eval [where e = 5]) (simp_all add: rne_def)
  then have s3: "round64 (b + 32) = Finite (65 / 2)"
    by (rule round64_eval) simp
  have "celsiusToFahrenheit (Finite (312749974122951 / 2 ^ 50)) = Math_round (Finite (65 / 2))"
    unfolding celsiusToFahrenheit_def by (simp only: arith.simps s1 s2 s3)
  then show ?thesis
    by (simp add: displayTemp_def)
qed

lemma displayTemp_example_exact: "round (312749974122951 / 2 ^ 50 * 9 / 5 + 32 :: real) = 32"
  by (simp add: round_def)







text \<open>A number too large for the product gives \<open>Infinity\<close>.\<close>

lemma celsiusToFahrenheit_overflow: "celsiusToFahrenheit (Finite (2 ^ 1023)) = PosInfinity"
proof -
  have "fl (2 ^ 1023 * 9) = 2 ^ 1023 * 9"
    by (rule fl_repr [where M = 9 and j = 1023]) simp_all
  then have "round64 (2 ^ 1023 * 9) = PosInfinity"
    by (simp add: round64_def)
  then show ?thesis
    by (simp add: celsiusToFahrenheit_def)
qed

subsection \<open>Icons\<close>

lemma map_of_iconMap_None: "cond \<notin> set conditions \<Longrightarrow> map_of iconMap cond = None"
  by (simp add: iconMap_def conditions_def)

text \<open>Each of the six labels has a glyph of at least one code unit.\<close>

lemma getWeatherIcon_labels:
  "map getWeatherIcon conditions =
     [JSString [0x2600, 0xFE0F], JSString [0x2601, 0xFE0F],
      JSString [0xD83C, 0xDF27, 0xFE0F], JSString [0x26C5],
      JSString [0x26C8, 0xFE0F], JSString [0x2744, 0xFE0F]]"
  by (simp add: getWeatherIcon_def Get_def iconMap_def lit_def conditions_def)

text \<open>A string that is neither a label nor a name on the prototype gets the fallback.\<close>

lemma getWeatherIcon_fallback:
  "cond \<notin> set conditions \<Longrightarrow> cond \<notin> set ObjectPrototype_keys \<Longrightarrow>
   getWeatherIcon cond = JSString fallbackIcon"
  by (simp add: getWeatherIcon_def Get_def map_of_iconMap_None)

text \<open>A name on the prototype gets what the prototype holds.\<close>

lemma getWeatherIcon_inherited:
  assumes "cond \<in> set ObjectPrototype_keys"
  shows "getWeatherIcon cond = JSObjectPrototype cond"
proof -
  from assms have "cond \<notin> set conditions"
    by (auto simp add: ObjectPrototype_keys_def conditions_def lit_def)
  with assms show ?thesis
    by (simp add: getWeatherIcon_def Get_def map_of_iconMap_None)
qed

text \<open>
  C4. The lookup is meant to return a glyph for every string, the fallback glyph for
  a string outside the six labels. For the string \<^verbatim>\<open>constructor\<close>, which is not a
  label, it returns \<^verbatim>\<open>Object.prototype.constructor\<close>, which is truthy, and not the
  fallback glyph.
\<close>

theorem getWeatherIcon_constructor:
  "lit ''constructor'' \<notin> set conditions \<and>
   getWeatherIcon (lit ''constructor'') = JSObjectPrototype (lit ''constructor'') \<and>
   getWeatherIcon (lit ''constructor'') \<noteq> JSString fallbackIcon"
  by (simp add: getWeatherIcon_def Get_def iconMap_def ObjectPrototype_keys_def lit_def
      conditions_def)

subsection \<open>Fetching\<close>

text \<open>With the mock data the stretch inside \<^verbatim>\<open>try\<close> never throws.\<close>

lemma acquire_succeeds: "acquire rnd clk tz c \<noteq> Inl e"
  by (simp add: acquire_def)

text \<open>
  C5. When the acquisition inside \<^verbatim>\<open>try\<close> throws, the fetch ends with the loading
  flag cleared and the one message
  \<^verbatim>\<open>'Failed to fetch weather data. Please try again.'\<close> as the error, and neither of
  its two parts changes the reading, the forecast or the city that were displayed.
\<close>

theorem fetch_failure:
  "loading (fetch_finish (Inl e) c s) = False \<and>
   error (fetch_finish (Inl e) c s)
     = lit ''Failed to fetch weather data. Please try again.'' \<and>
   currentWeather (fetch_finish (Inl e) c s) = currentWeather s \<and>
   forecast (fetch_finish (Inl e) c s) = forecast s \<and>
   view.city (fetch_finish (Inl e) c s) = view.city s \<and>
   currentWeather (fetch_start s) = currentWeather s \<and>
   forecast (fetch_start s) = forecast s \<and>
   view.city (fetch_start s) = view.city s \<and>
   fetch_finish (Inl e) c (fetch_start s)
     = s\<lparr> loading := False,
          error := lit ''Failed to fetch weather data. Please try again.'' \<rparr>"
  by (simp add: fetch_finish_def fetch_start_def)

text \<open>
  C10. The first part of every fetch empties the error message, and a successful
  second part leaves the message as it finds it; so a fetch that succeeds ends with
  an empty message, and so does a search, whatever message was displayed before.
\<close>

theorem fetch_clears_error:
  "error (fetch_start s) = [] \<and>
   error (fetch_finish (Inr d) c s) = error s \<and>
   error (fetchWeatherData rnd clk tz c s) = [] \<and>
   (trim (searchInput s) \<noteq> [] \<longrightarrow> error (search rnd clk tz s) = [])"
  by (cases d) (simp add: fetch_start_def fetch_finish_def fetchWeatherData_def acquire_def
      search_def handleSearch_def)

theorem fetch_clears_error_witness:
  "trim (searchInput (initial\<lparr> searchInput := lit ''Oslo'',
          error := lit ''Failed to fetch weather data. Please try again.'' \<rparr>)) \<noteq> [] \<and>
   error (search (\<lambda>k. Draw 0) (\<lambda>k. 0) (\<lambda>t. 0)
          (initial\<lparr> searchInput := lit ''Oslo'',
             error := lit ''Failed to fetch weather data. Please try again.'' \<rparr>)) = []"
proof -
  have h: "trim (searchInput (initial\<lparr> searchInput := lit ''Oslo'',
          error := lit ''Failed to fetch weather data. Please try again.'' \<rparr>)) \<noteq> []"
    by (simp add: trim_def lit_def WhiteSpace_def)
  from h fetch_clears_error
    [of "initial\<lparr> searchInput := lit ''Oslo'',
           error := lit ''Failed to fetch weather data. Please try again.'' \<rparr>"
        _ _ "\<lambda>k. Draw 0" "\<lambda>k. 0" "\<lambda>t. 0"]
  show ?thesis
    by blast
qed

subsection \<open>Searching\<close>

lemma trim_eq_Nil_iff: "trim s = [] \<longleftrightarrow> (\<forall>c\<in>set s. WhiteSpace c)"
proof
  assume "trim s = []"
  then have "dropWhile WhiteSpace (rev (dropWhile WhiteSpace s)) = []"
    by (simp add: trim_def)
  then have "\<forall>c\<in>set (dropWhile WhiteSpace s). WhiteSpace c"
    by (simp add: dropWhile_eq_Nil_conv)
  moreover have "dropWhile WhiteSpace s = [] \<or> \<not> WhiteSpace (hd (dropWhile WhiteSpace s))"
    using hd_dropWhile [of WhiteSpace s] by blast
  ultimately have "dropWhile WhiteSpace s = []"
    using hd_in_set by blast
  then show "\<forall>c\<in>set s. WhiteSpace c"
    by (simp add: dropWhile_eq_Nil_conv)
next
  assume "\<forall>c\<in>set s. WhiteSpace c"
  then have "dropWhile WhiteSpace s = []"
    by simp
  then show "trim s = []"
    by (simp only: trim_def rev.simps dropWhile.simps)
qed

lemma trim_Paris: "trim (lit ''  Paris  '') = lit ''Paris''"
  by (simp add: trim_def lit_def WhiteSpace_def)

text \<open>
  C6. When the input is empty or consists of white space only, a submission calls
  \<^verbatim>\<open>fetchWeatherData\<close> not at all and leaves the whole view state as it was.
\<close>

theorem handleSearch_blank:
  assumes "\<forall>c\<in>set (searchInput s). WhiteSpace c"
  shows "handleSearch s = (s, None) \<and> search rnd clk tz s = s"
proof -
  from assms have "trim (searchInput s) = []"
    by (simp only: trim_eq_Nil_iff)
  then show ?thesis
    by (simp add: handleSearch_def search_def)
qed

text \<open>Two instances: an input of three spaces, and the empty input of the initial state.\<close>

theorem handleSearch_blank_witness:
  "searchInput (initial\<lparr> searchInput := lit ''   '' \<rparr>) = [0x20, 0x20, 0x20] \<and>
   WhiteSpace 0x20 \<and>
   handleSearch (initial\<lparr> searchInput := lit ''   '' \<rparr>)
     = (initial\<lparr> searchInput := lit ''   '' \<rparr>, None) \<and>
   searchInput initial = [] \<and>
   handleSearch initial = (initial, None)"
proof -
  have v: "searchInput (initial\<lparr> searchInput := lit ''   '' \<rparr>) = [0x20, 0x20, 0x20]"
    by (simp add: lit_def)
  have w: "WhiteSpace 0x20"
    by (simp add: WhiteSpace_def)
  have h: "\<forall>c\<in>set (searchInput (initial\<lparr> searchInput := lit ''   '' \<rparr>)). WhiteSpace c"
    by (simp only: v) (simp add: w)
  have n: "searchInput initial = []"
    by (simp add: initial_def)
  have e: "\<forall>c\<in>set (searchInput initial). WhiteSpace c"
    by (simp add: n)
  from v w n handleSearch_blank [OF h] handleSearch_blank [OF e] show ?thesis
    by simp
qed

text \<open>
  C8. A submission with the input \<^verbatim>\<open>'  Paris  '\<close> calls \<^verbatim>\<open>fetchWeatherData\<close> with
  \<^verbatim>\<open>'Paris'\<close>; once that fetch has completed, the city of the view and of the reading
  is \<^verbatim>\<open>'Paris'\<close>, the forecast has exactly 5 entries, and the loading flag is clear,
  so both are on the page.
\<close>

theorem search_Paris:
  "handleSearch (s\<lparr> searchInput := lit ''  Paris  '' \<rparr>)
     = ((fetch_start s)\<lparr> searchInput := [] \<rparr>, Some (lit ''Paris'')) \<and>
   view.city (search rnd clk tz (s\<lparr> searchInput := lit ''  Paris  '' \<rparr>)) = lit ''Paris'' \<and>
   map_option WeatherData.city
       (currentWeather (search rnd clk tz (s\<lparr> searchInput := lit ''  Paris  '' \<rparr>)))
     = Some (lit ''Paris'') \<and>
   length (forecast (search rnd clk tz (s\<lparr> searchInput := lit ''  Paris  '' \<rparr>))) = 5 \<and>
   loading (search rnd clk tz (s\<lparr> searchInput := lit ''  Paris  '' \<rparr>)) = False"
proof -
  have ne: "lit ''Paris'' \<noteq> []"
    by (simp add: lit_def)
  have hs: "handleSearch (s\<lparr> searchInput := lit ''  Paris  '' \<rparr>)
     = ((fetch_start s)\<lparr> searchInput := [] \<rparr>, Some (lit ''Paris''))"
    by (simp add: handleSearch_def trim_Paris ne fetch_start_def)
  show ?thesis
    by (simp add: search_def hs fetch_finish_def acquire_def mockWeather_def mockForecast_def)
qed

subsection \<open>The unit toggle\<close>

text \<open>
  C7. Two toggles in a row restore the view state, and with it every temperature on
  the page: the current one, the felt one, and the highs and lows of the forecast.
\<close>

theorem toggleUnit_twice:
  "toggleUnit (toggleUnit s) = s \<and>
   shownCurrent (toggleUnit (toggleUnit s)) = shownCurrent s \<and>
   shownForecast (toggleUnit (toggleUnit s)) = shownForecast s"
  by (simp add: toggleUnit_def)

subsection \<open>Condition and icon\<close>

text \<open>
  The draw \<open>7505999378950826 / 2 ^ 53\<close>, written \<^verbatim>\<open>0.8333333333333333\<close>, lies below
  \<open>5/6\<close>, and its product with 6 rounds up to 5.
\<close>

lemma val_draw_083: "val (draw_of 7505999378950826) = 7505999378950826 / 2 ^ 53"
  using val_draw_of [of 7505999378950826] by simp

lemma fl_draw_083_6: "fl (val (draw_of 7505999378950826) * 6) = 5"
  unfolding val_draw_083 by (subst fl_eval [where e = 2]) (simp_all add: rne_def)

lemma getRandomCondition_example: "getRandomCondition (draw_of 7505999378950826) = lit ''Snowy''"
  by (simp add: getRandomCondition_def conditions_def fl_draw_083_6)

lemma getRandomCondition_sixteenth:
  assumes "j < 16"
  shows "getRandomCondition (Draw (real j / 16)) = conditions ! (3 * j div 8)"
proof -
  have "fl (real j / 16) = real j / 16"
    by (rule fl_repr [where M = "int j" and j = "- 4"])
      (use assms in \<open>simp_all add: power_int_minus_divide\<close>)
  then have v: "val (Draw (real j / 16)) = real j / 16"
    using assms by (intro val_Draw) simp_all
  have r: "fl (real (3 * j) / real 8) = real (3 * j) / real 8"
    by (rule fl_repr [where M = "int (3 * j)" and j = "- 3"])
      (use assms in \<open>simp_all add: power_int_minus_divide\<close>)
  have e: "real j / 16 * 6 = real (3 * j) / real 8"
    by simp
  have "\<lfloor>fl (real j / 16 * 6)\<rfloor> = \<lfloor>real (3 * j) / real 8\<rfloor>"
    by (simp only: e r)
  also have "\<dots> = int (3 * j div 8)"
    by (rule floor_divide_of_nat_eq)
  finally show ?thesis
    by (simp add: getRandomCondition_def v length_conditions)
qed

lemma getRandomCondition_onto:
  assumes "a \<in> set conditions"
  shows "\<exists>u. getRandomCondition u = a"
proof -
  from assms obtain k where k: "k < 6" and a: "conditions ! k = a"
    by (auto simp add: in_set_conv_nth length_conditions)
  from k consider "k = 0" | "k = 1" | "k = 2" | "k = 3" | "k = 4" | "k = 5"
    by linarith
  then obtain j :: nat where "j < 16" and "3 * j div 8 = k"
  proof cases
    case 1 then show ?thesis using that [of 0] by simp
  next
    case 2 then show ?thesis using that [of 3] by simp
  next
    case 3 then show ?thesis using that [of 6] by simp
  next
    case 4 then show ?thesis using that [of 8] by simp
  next
    case 5 then show ?thesis using that [of 11] by simp
  next
    case 6 then show ?thesis using that [of 14] by simp
  qed
  then have "getRandomCondition (Draw (real j / 16)) = a"
    by (simp add: getRandomCondition_sixteenth a)
  then show ?thesis ..
qed

lemma two_draws:
  fixes m n :: nat
  assumes "a \<in> set conditions" and "b \<in> set conditions" and "m \<noteq> n"
  shows "\<exists>r. getRandomCondition (r m) = a \<and> getRandomCondition (r n) = b"
proof -
  from getRandomCondition_onto [OF assms(1)] obtain u where u: "getRandomCondition u = a" ..
  from getRandomCondition_onto [OF assms(2)] obtain v where v: "getRandomCondition v = b" ..
  let ?r = "\<lambda>k. if k = m then u else v"
  from u v assms(3) have "getRandomCondition (?r m) = a \<and> getRandomCondition (?r n) = b"
    by simp
  then show ?thesis by (rule exI [of _ ?r])
qed

lemma Sunny_Cloudy: "lit ''Sunny'' \<noteq> lit ''Cloudy''"
  by (simp add: lit_def)

text \<open>
  C9. In the reading and in every forecast entry, the condition and the icon are
  labels of the enumeration, each computed from a draw of its own; every pair of
  labels comes out for some draws, so for some draws the two fields differ.
\<close>

theorem condition_icon_independent:
  "WeatherData.condition (mockWeather rnd c) = getRandomCondition (rnd 2) \<and>
   WeatherData.icon (mockWeather rnd c) = getRandomCondition (rnd 5) \<and>
   WeatherData.condition (mockWeather rnd c) \<in> set conditions \<and>
   WeatherData.icon (mockWeather rnd c) \<in> set conditions \<and>
   (\<forall>i<5. ForecastDay.condition (mockForecast rnd clk tz ! i)
             = getRandomCondition (rnd (8 + 4 * i)) \<and>
           ForecastDay.icon (mockForecast rnd clk tz ! i)
             = getRandomCondition (rnd (9 + 4 * i)) \<and>
           ForecastDay.condition (mockForecast rnd clk tz ! i) \<in> set conditions \<and>
           ForecastDay.icon (mockForecast rnd clk tz ! i) \<in> set conditions) \<and>
   (\<forall>a\<in>set conditions. \<forall>b\<in>set conditions.
      \<exists>r. WeatherData.condition (mockWeather r c) = a \<and>
          WeatherData.icon (mockWeather r c) = b) \<and>
   (\<forall>i<5. \<forall>a\<in>set conditions. \<forall>b\<in>set conditions.
      \<exists>r. ForecastDay.condition (mockForecast r clk tz ! i) = a \<and>
          ForecastDay.icon (mockForecast r clk tz ! i) = b) \<and>
   (\<exists>r. WeatherData.condition (mockWeather r c) \<noteq> WeatherData.icon (mockWeather r c)) \<and>
   (\<forall>i<5. \<exists>r. ForecastDay.condition (mockForecast r clk tz ! i)
             \<noteq> ForecastDay.icon (mockForecast r clk tz ! i))"
proof -
  have w: "\<exists>r. WeatherData.condition (mockWeather r c) = a \<and>
               WeatherData.icon (mockWeather r c) = b"
    if "a \<in> set conditions" "b \<in> set conditions" for a b
    using two_draws [OF that, of 2 5] by (simp add: mockWeather_def)
  have f: "\<exists>r. ForecastDay.condition (mockForecast r clk tz ! i) = a \<and>
          ForecastDay.icon (mockForecast r clk tz ! i) = b"
    if "i < 5" "a \<in> set conditions" "b \<in> set conditions" for i a b
    using two_draws [OF that(2,3), of "8 + 4 * i" "9 + 4 * i"] that(1)
    by (simp add: mockForecast_nth mockForecastDay_def)
  have sc: "lit ''Sunny'' \<in> set conditions" "lit ''Cloudy'' \<in> set conditions"
    by (simp_all add: conditions_def)
  have wd: "\<exists>r. WeatherData.condition (mockWeather r c) \<noteq> WeatherData.icon (mockWeather r c)"
    using w [OF sc] Sunny_Cloudy by metis
  have fd: "\<exists>r. ForecastDay.condition (mockForecast r clk tz ! i)
             \<noteq> ForecastDay.icon (mockForecast r clk tz ! i)" if "i < 5" for i
    using f [OF that sc] Sunny_Cloudy by metis
  have g: "WeatherData.condition (mockWeather rnd c) = getRandomCondition (rnd 2)"
    "WeatherData.icon (mockWeather rnd c) = getRandomCondition (rnd 5)"
    by (simp_all add: mockWeather_def)
  have h: "ForecastDay.condition (mockForecast rnd clk tz ! i)
             = getRandomCondition (rnd (8 + 4 * i))"
    "ForecastDay.icon (mockForecast rnd clk tz ! i) = getRandomCondition (rnd (9 + 4 * i))"
    if "i < 5" for i
    using that by (simp_all add: mockForecast_nth mockForecastDay_def)
  show ?thesis
    using w f wd fd by (simp add: g h getRandomCondition_in_conditions)
qed

text \<open>
  An instance: with the draw for the icon at \<open>7/8\<close> and every other draw at 0, the
  reading is labelled Sunny and carries the icon Snowy.
\<close>

theorem condition_icon_independent_witness:
  "lit ''Sunny'' \<in> set conditions \<and> lit ''Snowy'' \<in> set conditions \<and> (2::nat) < 5 \<and>
   (\<exists>r. WeatherData.condition (mockWeather r (lit ''Paris'')) = lit ''Sunny'' \<and>
        WeatherData.icon (mockWeather r (lit ''Paris'')) = lit ''Snowy'') \<and>
   (\<exists>r. ForecastDay.condition (mockForecast r (\<lambda>k. 0) (\<lambda>t. 0) ! 2) = lit ''Sunny'' \<and>
        ForecastDay.icon (mockForecast r (\<lambda>k. 0) (\<lambda>t. 0) ! 2) = lit ''Snowy'') \<and>
   WeatherData.condition
       (mockWeather (\<lambda>k. if k = 5 then Draw (7 / 8) else Draw 0) (lit ''Paris''))
     = lit ''Sunny'' \<and>
   WeatherData.icon
       (mockWeather (\<lambda>k. if k = 5 then Draw (7 / 8) else Draw 0) (lit ''Paris''))
     = lit ''Snowy''"
proof -
  have a: "lit ''Sunny'' \<in> set conditions" and b: "lit ''Snowy'' \<in> set conditions"
    by (simp_all add: conditions_def)
  have i: "(2::nat) < 5" by simp
  have d: "getRandomCondition (Draw 0) = lit ''Sunny''"
    "getRandomCondition (Draw (7 / 8)) = lit ''Snowy''"
    using getRandomCondition_sixteenth [of 0] getRandomCondition_sixteenth [of 14]
    by (simp_all add: conditions_def)
  have e: "WeatherData.condition
       (mockWeather (\<lambda>k. if k = 5 then Draw (7 / 8) else Draw 0) (lit ''Paris''))
     = lit ''Sunny''"
    "WeatherData.icon
       (mockWeather (\<lambda>k. if k = 5 then Draw (7 / 8) else Draw 0) (lit ''Paris''))
     = lit ''Snowy''"
    by (simp_all add: mockWeather_def d)
  from a b i e
    condition_icon_independent [of "\<lambda>k. Draw 0" "lit ''Paris''" "\<lambda>k. 0" "\<lambda>t. 0"]
  show ?thesis
    by blast
qed

end
